theory Spec2Isabelle
  imports Complex_Main
begin

section \<open>The callback server of secure-askpass (askpass-android-server.py)\<close>

text \<open>
  Conventions of the embedding.
  \<^item> A Python \<open>str\<close> is a \<open>string\<close> (its characters) and a Python \<open>bytes\<close> is a
    \<open>string\<close> (its bytes); \<open>s.encode()\<close> is a call of the library.
  \<^item> A reading of \<open>time.time()\<close> is a \<open>real\<close> (seconds); the rounding of the float
    subtraction is not modelled. Every function that reads the clock takes the reading
    as the argument \<open>now\<close>.
  \<^item> \<open>with self._lock:\<close> makes the body one atomic step, so a call of a
    \<open>ChallengeStore\<close> method is one function application on the store, and concurrent
    callers are the calls in the order in which they get the lock.
  \<^item> A raised exception is a value of type \<open>exn\<close>; only subclasses of \<open>Exception\<close> are
    modelled.
\<close>

type_synonym bytes = string

datatype exn =
    ValueError          \<comment> \<open>\<open>ValueError\<close> itself, e.g. from \<open>int("abc")\<close>\<close>
  | JSONDecodeError     \<comment> \<open>subclass of \<open>ValueError\<close>\<close>
  | BinasciiError       \<comment> \<open>\<open>binascii.Error\<close>, subclass of \<open>ValueError\<close>\<close>
  | UnicodeError        \<comment> \<open>subclass of \<open>ValueError\<close>\<close>
  | KeyError
  | TypeError
  | AttributeError
  | InvalidSignature    \<comment> \<open>\<open>cryptography.exceptions.InvalidSignature\<close>\<close>
  | UnsupportedAlgorithm
  | ImportError
  | OSError             \<comment> \<open>a failed write to the socket (\<open>BrokenPipeError\<close>, \<open>ConnectionResetError\<close>)\<close>
  | OtherException

text \<open>
  A value that \<open>json.loads\<close> returns. A JSON object is the list of the items of the
  Python dict (looked up with \<open>map_of\<close>); a float is the real number it denotes.
\<close>

datatype json =
    JNull
  | JBool bool
  | JInt int
  | JFloat real
  | JStr string
  | JArr "json list"
  | JObj "(string \<times> json) list"

subsection \<open>ChallengeStore\<close>

text \<open>
  An entry is the dict \<open>{"data": challenge_data, "created": time.time()}\<close>. The payload
  \<open>'d\<close> is any Python value other than \<open>None\<close> (\<open>main\<close> passes the string
  \<open>sys.argv[3]\<close>); \<open>None\<close> is what \<open>validate_and_consume\<close> returns for "nothing".
\<close>

record 'd entry =
  data :: 'd
  created :: real

record 'd ChallengeStore =
  ttl :: real
  challenges :: "string \<rightharpoonup> 'd entry"

definition ChallengeStore_init :: "real \<Rightarrow> 'd ChallengeStore" where
  "ChallengeStore_init t = \<lparr>ttl = t, challenges = Map.empty\<rparr>"

definition add :: "'d ChallengeStore \<Rightarrow> real \<Rightarrow> string \<Rightarrow> 'd \<Rightarrow> 'd ChallengeStore" where
  "add st now nonce challenge_data =
     st\<lparr>challenges := (challenges st)(nonce \<mapsto> \<lparr>data = challenge_data, created = now\<rparr>)\<rparr>"

text \<open>
  \<open>entry = self._challenges.pop(nonce, None)\<close> removes the key before anything is
  tested, so each of the three returns leaves the store without \<open>nonce\<close>.
\<close>

definition validate_and_consume ::
  "'d ChallengeStore \<Rightarrow> real \<Rightarrow> string \<Rightarrow> 'd option \<times> 'd ChallengeStore" where
  "validate_and_consume st now nonce =
     (let entry = challenges st nonce;
          st' = st\<lparr>challenges := (challenges st)(nonce := None)\<rparr>
      in case entry of
           None \<Rightarrow> (None, st')
         | Some e \<Rightarrow>
             if now - created e > ttl st then (None, st')
             else (Some (data e), st'))"

text \<open>
  A run of calls in the order in which they hold the lock: each call is the clock
  reading inside the lock and the nonce asked for. The results come back in the same
  order.
\<close>

fun consume_all ::
  "'d ChallengeStore \<Rightarrow> (real \<times> string) list \<Rightarrow> 'd option list \<times> 'd ChallengeStore" where
  "consume_all st [] = ([], st)"
| "consume_all st ((now, nonce) # calls) =
     (let (r, st') = validate_and_consume st now nonce;
          (rs, st'') = consume_all st' calls
      in (r # rs, st''))"

text \<open>The results of the calls that asked for \<open>nonce\<close> and got a payload.\<close>

definition winners :: "string \<Rightarrow> (real \<times> string) list \<Rightarrow> 'd option list \<Rightarrow> 'd option list" where
  "winners nonce calls rs =
     map snd (filter (\<lambda>(c, r). snd c = nonce \<and> r \<noteq> None) (zip calls rs))"

subsection \<open>AuthResult\<close>

text \<open>
  \<open>_result\<close> starts as \<open>None\<close>; \<open>_event\<close> is the flag of the \<open>threading.Event\<close>. The
  handler only ever passes \<open>True\<close>, so the stored value is a \<open>bool\<close>.
\<close>

record AuthResult =
  result :: "bool option"
  event :: bool

definition AuthResult_init :: AuthResult where
  "AuthResult_init = \<lparr>result = None, event = False\<rparr>"

definition set_result :: "AuthResult \<Rightarrow> bool \<Rightarrow> AuthResult" where
  "set_result r v = r\<lparr>result := Some v, event := True\<rparr>"

text \<open>\<open>wait\<close> returns \<open>_result\<close> once the event wait is over; the blocking is not modelled.\<close>

definition wait :: "AuthResult \<Rightarrow> bool option" where
  "wait r = result r"

subsection \<open>verify\_signature\<close>

text \<open>
  The \<open>cryptography\<close> package is a parameter: whether its import succeeded, what
  \<open>load_pem_public_key\<close> does with the PEM bytes (a key of one of three kinds, or an
  exception), and what the two \<open>verify\<close> methods do (\<open>None\<close>: they return, which means
  the signature is good; \<open>Some e\<close>: they raise \<open>e\<close>). The arguments of the \<open>verify\<close>
  functions are the key, the signature and the message, in the order of the source.
\<close>

datatype public_key =
    Ed25519PublicKey bytes
  | EllipticCurvePublicKey bytes
  | OtherPublicKey bytes

record crypto =
  HAS_CRYPTO :: bool
  import_primitives :: "exn option"
  load_pem_public_key :: "bytes \<Rightarrow> exn + public_key"
  ed25519_verify :: "bytes \<Rightarrow> bytes \<Rightarrow> bytes \<Rightarrow> exn option"
  ecdsa_sha256_verify :: "bytes \<Rightarrow> bytes \<Rightarrow> bytes \<Rightarrow> exn option"

text \<open>
  The other library calls of the handler, on top of the cryptography: \<open>int(s)\<close> on a
  header value, \<open>json.loads\<close> on the bytes read, \<open>base64.b64decode\<close> on a \<open>str\<close>, and
  \<open>s.encode()\<close> on a \<open>str\<close>.
\<close>

record library = crypto +
  py_int :: "string \<Rightarrow> exn + int"
  json_loads :: "bytes \<Rightarrow> exn + json"
  b64decode :: "string \<Rightarrow> exn + bytes"
  str_encode :: "string \<Rightarrow> exn + bytes"

text \<open>
  The body of the \<open>try\<close>. \<open>pubkey_pem\<close> is \<open>None\<close> until \<open>run_server\<close> sets the global,
  and \<open>None.encode()\<close> raises \<open>AttributeError\<close>. For a text, \<open>load_pem_public_key c pem\<close>
  stands for \<open>load_pem_public_key(pubkey_pem.encode())\<close>: an exception of the encoding is
  one of the exceptions of the parameter.
\<close>

definition verify_signature_body ::
  "'a crypto_scheme \<Rightarrow> string option \<Rightarrow> bytes \<Rightarrow> bytes \<Rightarrow> exn + bool" where
  "verify_signature_body c pubkey_pem message_bytes signature_bytes =
     (case import_primitives c of
        Some e \<Rightarrow> Inl e
      | None \<Rightarrow>
         (case pubkey_pem of
            None \<Rightarrow> Inl AttributeError
          | Some pem \<Rightarrow>
             (case load_pem_public_key c pem of
                Inl e \<Rightarrow> Inl e
              | Inr (Ed25519PublicKey k) \<Rightarrow>
                  (case ed25519_verify c k signature_bytes message_bytes of
                     Some e \<Rightarrow> Inl e
                   | None \<Rightarrow> Inr True)
              | Inr (EllipticCurvePublicKey k) \<Rightarrow>
                  (case ecdsa_sha256_verify c k signature_bytes message_bytes of
                     Some e \<Rightarrow> Inl e
                   | None \<Rightarrow> Inr True)
              | Inr (OtherPublicKey k) \<Rightarrow> Inr False)))"

text \<open>\<open>except Exception: return False\<close> around the body, after the \<open>HAS_CRYPTO\<close> guard.\<close>

definition verify_signature ::
  "'a crypto_scheme \<Rightarrow> string option \<Rightarrow> bytes \<Rightarrow> bytes \<Rightarrow> exn + bool" where
  "verify_signature c pubkey_pem message_bytes signature_bytes =
     (if \<not> HAS_CRYPTO c then Inr False
      else case verify_signature_body c pubkey_pem message_bytes signature_bytes of
             Inl e \<Rightarrow> Inr False
           | Inr b \<Rightarrow> Inr b)"

subsection \<open>CallbackHandler\<close>

text \<open>
  What arrives on a connection. \<open>parse\<close> is what the library's \<open>parse_request\<close> makes of
  the request line and the headers: it gives up without an answer (an empty request
  line), or answers with an error status of its own (400, 414, 431, 505) and gives up,
  or succeeds. \<open>command\<close> and \<open>requestline_path\<close> are the first two words of the
  request line, \<open>content_length_header\<close> is the value of the \<open>Content-Length\<close> header if there is one,
  \<open>rfile\<close> holds the bytes that follow the headers until the peer stops sending, and
  \<open>wfile_error\<close> is the exception that a write of an answer to the connection raises
  (\<open>None\<close>: the writes succeed).
\<close>

datatype parse_outcome = Parse_silent | Parse_error nat | Parse_ok

record request =
  parse :: parse_outcome
  command :: string
  requestline_path :: string
  content_length_header :: "string option"
  rfile :: bytes
  wfile_error :: "exn option"

text \<open>
  \<open>self.path\<close>, as \<open>parse_request\<close> sets it: the path of the request line, with a
  leading run of two or more slashes reduced to one
  (\<open>if self.path.startswith('//'): self.path = '/' + self.path.lstrip('/')\<close>).
\<close>

definition path :: "request \<Rightarrow> string" where
  "path req =
     (if take 2 (requestline_path req) = ''//''
      then CHR ''/'' # dropWhile (\<lambda>c. c = CHR ''/'') (requestline_path req)
      else requestline_path req)"

text \<open>
  The effects of a handler in program order: what it reads from the connection, the
  answers it has written, and the call \<open>auth_result.set\<close>.
\<close>

datatype event =
    Rfile_read int
  | Send_error nat "string option"
  | Send_json nat json
  | Auth_set bool

text \<open>
  The module-level state and the log of the effects. The payload of the module's store
  is the string \<open>challenge_json\<close> that \<open>run_server\<close> registers.
\<close>

record server =
  challenge_store :: "string ChallengeStore"
  auth_result :: AuthResult
  device_pubkey_pem :: "string option"
  trace :: "event list"

definition server_init :: "server" where
  "server_init =
     \<lparr>challenge_store = ChallengeStore_init 30, auth_result = AuthResult_init,
      device_pubkey_pem = None, trace = []\<rparr>"

text \<open>
  Writing an answer: \<open>send_error\<close> and \<open>_send_json\<close> end in \<open>self.wfile.write\<close>, a
  \<open>sendall\<close> on the socket. Either the answer is written, or the write raises and
  nothing counts as answered.
\<close>

definition wfile_write :: "request \<Rightarrow> event \<Rightarrow> server \<Rightarrow> exn option \<times> server" where
  "wfile_write req answer s =
     (case wfile_error req of
        None \<Rightarrow> (None, s\<lparr>trace := trace s @ [answer]\<rparr>)
      | Some e \<Rightarrow> (Some e, s))"

definition send_error ::
  "nat \<Rightarrow> string option \<Rightarrow> request \<Rightarrow> server \<Rightarrow> exn option \<times> server" where
  "send_error code message req s = wfile_write req (Send_error code message) s"

definition send_json :: "nat \<Rightarrow> json \<Rightarrow> request \<Rightarrow> server \<Rightarrow> exn option \<times> server" where
  "send_json code obj req s = wfile_write req (Send_json code obj) s"

definition auth_result_set :: "bool \<Rightarrow> server \<Rightarrow> server" where
  "auth_result_set v s =
     s\<lparr>auth_result := set_result (auth_result s) v, trace := trace s @ [Auth_set v]\<rparr>"

text \<open>
  \<open>self.rfile.read(n)\<close> on the buffered reader of the connection: \<open>n\<close> bytes (fewer if
  the peer stops sending before), everything up to the end for \<open>n = -1\<close>, and
  \<open>ValueError\<close> for a size below \<open>-1\<close>.
\<close>

definition rfile_read :: "request \<Rightarrow> int \<Rightarrow> exn + bytes" where
  "rfile_read req n =
     (if n < - 1 then Inl ValueError
      else if n = - 1 then Inr (rfile req)
      else Inr (take (nat n) (rfile req)))"

text \<open>\<open>int(self.headers.get("Content-Length", 0))\<close>.\<close>

definition content_length_of :: "'a library_scheme \<Rightarrow> request \<Rightarrow> exn + int" where
  "content_length_of lib req =
     (case content_length_header req of None \<Rightarrow> Inr 0 | Some h \<Rightarrow> py_int lib h)"

text \<open>Python's truth value of a JSON value, as \<open>not x\<close> tests it.\<close>

fun truthy :: "json \<Rightarrow> bool" where
  "truthy JNull = False"
| "truthy (JBool b) = b"
| "truthy (JInt i) = (i \<noteq> 0)"
| "truthy (JFloat x) = (x \<noteq> 0)"
| "truthy (JStr s) = (s \<noteq> [])"
| "truthy (JArr xs) = (xs \<noteq> [])"
| "truthy (JObj kvs) = (kvs \<noteq> [])"

text \<open>\<open>payload.get(key)\<close> on a dict: the value, or \<open>None\<close> for a missing key.\<close>

definition dict_get :: "(string \<times> json) list \<Rightarrow> string \<Rightarrow> json" where
  "dict_get kvs key = (case map_of kvs key of None \<Rightarrow> JNull | Some v \<Rightarrow> v)"

text \<open>
  \<open>challenge_store.validate_and_consume(nonce)\<close> for the JSON value the request gave.
  The keys of the store are strings: a list or a dict is unhashable and \<open>pop\<close> raises
  \<open>TypeError\<close>; a number or a boolean is hashable, equals no string key, and \<open>pop\<close>
  finds and removes nothing.
\<close>

definition consume_nonce ::
  "'d ChallengeStore \<Rightarrow> real \<Rightarrow> json \<Rightarrow> exn + ('d option \<times> 'd ChallengeStore)" where
  "consume_nonce st now nonce =
     (case nonce of
        JStr n \<Rightarrow> Inr (validate_and_consume st now n)
      | JArr xs \<Rightarrow> Inl TypeError
      | JObj kvs \<Rightarrow> Inl TypeError
      | _ \<Rightarrow> Inr (None, st))"

text \<open>\<open>base64.b64decode(x)\<close>: a value that is not a \<open>str\<close> raises \<open>TypeError\<close>.\<close>

definition py_b64decode :: "'a library_scheme \<Rightarrow> json \<Rightarrow> exn + bytes" where
  "py_b64decode lib x = (case x of JStr s \<Rightarrow> b64decode lib s | _ \<Rightarrow> Inl TypeError)"

text \<open>
  \<open>nonce.encode()\<close>: only a \<open>str\<close> has the method, and it raises \<open>UnicodeEncodeError\<close>
  on text that has no UTF-8 encoding.
\<close>

definition encode :: "'a library_scheme \<Rightarrow> json \<Rightarrow> exn + bytes" where
  "encode lib x = (case x of JStr s \<Rightarrow> str_encode lib s | _ \<Rightarrow> Inl AttributeError)"

text \<open>
  The body of the \<open>try\<close> of \<open>do_POST\<close>. The result is the exception that left the
  block, if any, and the state at that point: what was done before a \<open>raise\<close> stays
  done.
\<close>

definition do_POST_try ::
  "'a library_scheme \<Rightarrow> real \<Rightarrow> request \<Rightarrow> server \<Rightarrow> exn option \<times> server" where
  "do_POST_try lib now req s =
     (case content_length_of lib req of
        Inl e \<Rightarrow> (Some e, s)
      | Inr content_length \<Rightarrow>
          if content_length > 4096 then send_error 413 None req s
          else
            (case rfile_read req content_length of
               Inl e \<Rightarrow> (Some e, s)
             | Inr body \<Rightarrow>
                 let s1 = s\<lparr>trace := trace s @ [Rfile_read content_length]\<rparr>
                 in (case json_loads lib body of
                       Inl e \<Rightarrow> (Some e, s1)
                     | Inr (JObj kvs) \<Rightarrow>
                         let nonce = dict_get kvs ''nonce'';
                             signature_b64 = dict_get kvs ''signature''
                         in if \<not> truthy nonce \<or> \<not> truthy signature_b64
                            then send_error 400 (Some ''Missing nonce or signature'') req s1
                            else
                              (case consume_nonce (challenge_store s1) now nonce of
                                 Inl e \<Rightarrow> (Some e, s1)
                               | Inr (challenge_data, store') \<Rightarrow>
                                   let s2 = s1\<lparr>challenge_store := store'\<rparr>
                                   in if challenge_data = None
                                      then send_error 403 (Some ''Invalid or expired challenge'') req s2
                                      else
                                        (case py_b64decode lib signature_b64 of
                                           Inl e \<Rightarrow> (Some e, s2)
                                         | Inr signature_bytes \<Rightarrow>
                                             (case encode lib nonce of
                                                Inl e \<Rightarrow> (Some e, s2)
                                              | Inr nonce_bytes \<Rightarrow>
                                                  (case verify_signature lib (device_pubkey_pem s2)
                                                          nonce_bytes signature_bytes of
                                                     Inl e \<Rightarrow> (Some e, s2)
                                                   | Inr ok \<Rightarrow>
                                                       if \<not> ok
                                                       then send_error 403 (Some ''Invalid signature'') req s2
                                                       else
                                                         (case send_json 200
                                                                 (JObj [(''status'', JStr ''ok'')]) req s2 of
                                                            (Some e, s3) \<Rightarrow> (Some e, s3)
                                                          | (None, s3) \<Rightarrow>
                                                              (None, auth_result_set True s3))))))
                     | Inr other \<Rightarrow> (Some AttributeError, s1))))"

text \<open>\<open>except (json.JSONDecodeError, KeyError, ValueError)\<close>, with the subclasses of \<open>ValueError\<close>.\<close>

definition caught :: "exn \<Rightarrow> bool" where
  "caught e =
     (e = JSONDecodeError \<or> e = KeyError \<or> e = ValueError \<or> e = BinasciiError \<or> e = UnicodeError)"

text \<open>
  \<open>do_POST\<close>, with \<open>path req\<close> for \<open>self.path\<close>. An exception that the \<open>except\<close> clause
  does not catch, or that the \<open>send_error\<close> of the clause raises, leaves the handler
  (\<open>Some e\<close>); \<open>socketserver\<close> reports it and drops the connection.
\<close>

definition do_POST ::
  "'a library_scheme \<Rightarrow> real \<Rightarrow> request \<Rightarrow> server \<Rightarrow> exn option \<times> server" where
  "do_POST lib now req s =
     (if path req \<noteq> ''/auth/response'' then send_error 404 None req s
      else (case do_POST_try lib now req s of
              (Some e, s') \<Rightarrow>
                if caught e then send_error 400 (Some ''Invalid request'') req s'
                else (Some e, s')
            | (None, s') \<Rightarrow> (None, s')))"

text \<open>
  \<open>BaseHTTPRequestHandler.handle_one_request\<close>, which the class inherits. When
  \<open>parse_request\<close> fails, its own answer is all there is. Otherwise the method
  \<open>do_<command>\<close> is called if the class has it, and \<open>CallbackHandler\<close> defines \<open>do_POST\<close>
  only; for any other command the library answers 501. The messages of the library's
  answers are not modelled.
\<close>

definition handle_one_request ::
  "'a library_scheme \<Rightarrow> real \<Rightarrow> request \<Rightarrow> server \<Rightarrow> exn option \<times> server" where
  "handle_one_request lib now req s =
     (case parse req of
        Parse_silent \<Rightarrow> (None, s)
      | Parse_error code \<Rightarrow> send_error code None req s
      | Parse_ok \<Rightarrow>
          if command req = ''POST'' then do_POST lib now req s
          else send_error 501 None req s)"

subsection \<open>run\_server\<close>





text \<open>The first two statements of \<open>run_server\<close>: the global key and the challenge.\<close>

definition register ::
  "string \<Rightarrow> string \<Rightarrow> string \<Rightarrow> real \<Rightarrow> server \<Rightarrow> server" where
  "register nonce challenge_json pubkey_pem now s =
     s\<lparr>device_pubkey_pem := Some pubkey_pem,
       challenge_store := add (challenge_store s) now nonce challenge_json\<rparr>"


subsection \<open>What the specification calls a valid request\<close>

text \<open>
  Following the specification, not the handler: a POST to \<open>/auth/response\<close> that the
  library parses, of at most 4096 declared bytes, whose body is a JSON object with the
  non-empty strings \<open>nonce\<close> and \<open>signature\<close>, where the nonce is registered and not
  older than the TTL, the signature decodes from base64, and the decoded bytes verify
  under the device key over the bytes of the nonce.
\<close>

definition valid_request :: "'a library_scheme \<Rightarrow> real \<Rightarrow> request \<Rightarrow> server \<Rightarrow> bool" where
  "valid_request lib now req s =
     (parse req = Parse_ok \<and> command req = ''POST'' \<and> path req = ''/auth/response'' \<and>
      (case content_length_of lib req of
         Inl e \<Rightarrow> False
       | Inr n \<Rightarrow>
           n \<le> 4096 \<and>
           (case rfile_read req n of
              Inl e \<Rightarrow> False
            | Inr body \<Rightarrow>
               (case json_loads lib body of
                  Inr (JObj kvs) \<Rightarrow>
                    (case (dict_get kvs ''nonce'', dict_get kvs ''signature'') of
                       (JStr nonce, JStr sig_b64) \<Rightarrow>
                         nonce \<noteq> [] \<and> sig_b64 \<noteq> [] \<and>
                         (case challenges (challenge_store s) nonce of
                            None \<Rightarrow> False
                          | Some e \<Rightarrow> now - created e \<le> ttl (challenge_store s)) \<and>
                         (case b64decode lib sig_b64 of
                            Inl e \<Rightarrow> False
                          | Inr sg \<Rightarrow>
                              (case str_encode lib nonce of
                                 Inl e \<Rightarrow> False
                               | Inr nonce_bytes \<Rightarrow>
                                   verify_signature lib (device_pubkey_pem s) nonce_bytes sg
                                     = Inr True))
                     | _ \<Rightarrow> False)
                | _ \<Rightarrow> False))))"


subsection \<open>A library instance and requests for the worked examples\<close>

text \<open>
  The examples need the answers of the library on a few inputs. For \<open>int\<close>,
  \<open>json.loads\<close> and \<open>base64.b64decode\<close> the instance gives, on the inputs listed, what
  CPython gives (\<open>b64decode("abc")\<close> raises \<open>binascii.Error\<close>: incorrect padding;
  \<open>b64decode("c2lnOm4x")\<close> is \<open>b"sig:n1"\<close>; \<open>json.loads\<close> skips the white space after the
  object), and an exception on every other input. The
  key of the examples is the PEM text \<open>PEM\<close>, an Ed25519 key that accepts exactly the
  signature \<open>sig:\<close> followed by the message. The text of the examples is ASCII, whose
  encoding is the text itself.
\<close>

definition body_ok :: string where
  \<open>body_ok = ''{"nonce": "n1", "signature": "c2lnOm4x"}''\<close>

definition body_bad_b64 :: string where
  \<open>body_bad_b64 = ''{"nonce": "n1", "signature": "abc"}''\<close>

definition body_no_signature :: string where
  \<open>body_no_signature = ''{"nonce": "n1"}''\<close>

definition body_empty_nonce :: string where
  \<open>body_empty_nonce = ''{"nonce": "", "signature": "c2lnOm4x"}''\<close>

text \<open>The body \<open>body_ok\<close> followed by 4960 spaces: 5000 bytes, the same JSON object.\<close>

definition body_padded :: string where
  "body_padded = body_ok @ replicate 4960 CHR '' ''"

definition example_library :: library where
  "example_library =
     \<lparr>HAS_CRYPTO = True,
      import_primitives = None,
      load_pem_public_key =
        (\<lambda>pem. if pem = ''PEM'' then Inr (Ed25519PublicKey ''K'') else Inl ValueError),
      ed25519_verify =
        (\<lambda>k sg m. if k = ''K'' \<and> sg = ''sig:'' @ m then None else Some InvalidSignature),
      ecdsa_sha256_verify = (\<lambda>k sg m. Some InvalidSignature),
      py_int =
        (\<lambda>h. case map_of [(''40'', 40), (''35'', 35), (''15'', 15), (''38'', 38), (''8'', 8),
                            (''5000'', 5000), (''-1'', - 1)] h of
               None \<Rightarrow> Inl ValueError
             | Some n \<Rightarrow> Inr n),
      json_loads =
        (\<lambda>b. case map_of
                 [(body_ok, JObj [(''nonce'', JStr ''n1''), (''signature'', JStr ''c2lnOm4x'')]),
                  (body_bad_b64, JObj [(''nonce'', JStr ''n1''), (''signature'', JStr ''abc'')]),
                  (body_no_signature, JObj [(''nonce'', JStr ''n1'')]),
                  (body_empty_nonce, JObj [(''nonce'', JStr []), (''signature'', JStr ''c2lnOm4x'')]),
                  (body_padded, JObj [(''nonce'', JStr ''n1''), (''signature'', JStr ''c2lnOm4x'')])]
                 b of
               None \<Rightarrow> Inl JSONDecodeError
             | Some v \<Rightarrow> Inr v),
      b64decode =
        (\<lambda>x. if x = ''c2lnOm4x'' then Inr ''sig:n1'' else Inl BinasciiError),
      str_encode =
        (\<lambda>x. if list_all (\<lambda>c. of_char c < (128::nat)) x then Inr x else Inl UnicodeError)\<rparr>"

text \<open>
  A POST to the endpoint with the given \<open>Content-Length\<close> and the given bytes after the
  headers, on a connection that takes the answer.
\<close>

definition post :: "string \<Rightarrow> string \<Rightarrow> request" where
  "post h b =
     \<lparr>parse = Parse_ok, command = ''POST'', requestline_path = ''/auth/response'',
      content_length_header = Some h, rfile = b, wfile_error = None\<rparr>"

text \<open>
  The state after \<open>run_server\<close> has registered the nonce \<open>n1\<close> at time 0 in the initial
  module state (TTL 30), with the payload \<open>{}\<close> and the key \<open>PEM\<close>.
\<close>

definition example_server :: "server" where
  "example_server = register ''n1'' ''{}'' ''PEM'' 0 server_init"

section \<open>Properties\<close>

subsection \<open>ChallengeStore\<close>

lemma consume_absent:
  "challenges st nonce = None \<Longrightarrow> fst (validate_and_consume st now nonce) = None"
  by (simp add: validate_and_consume_def)

lemma consume_removes:
  "challenges (snd (validate_and_consume st now n)) = (challenges st)(n := None)"
  by (simp add: validate_and_consume_def Let_def split: option.splits)

lemma consume_ttl: "ttl (snd (validate_and_consume st now n)) = ttl st"
  by (simp add: validate_and_consume_def Let_def split: option.splits)

lemma consume_keeps_absent:
  "challenges st nonce = None \<Longrightarrow> challenges (snd (validate_and_consume st now n)) nonce = None"
  by (simp add: consume_removes)

lemma consume_all_keeps_absent:
  "challenges st nonce = None \<Longrightarrow> challenges (snd (consume_all st calls)) nonce = None"
proof (induction calls arbitrary: st)
  case Nil
  then show ?case by simp
next
  case (Cons c calls)
  obtain now n where c: "c = (now, n)" by (cases c)
  have "challenges (snd (validate_and_consume st now n)) nonce = None"
    using Cons.prems by (rule consume_keeps_absent)
  from Cons.IH[OF this] show ?case
    by (simp add: c split_beta Let_def)
qed

lemma winners_absent:
  "challenges st nonce = None \<Longrightarrow> winners nonce calls (fst (consume_all st calls)) = []"
proof (induction calls arbitrary: st)
  case Nil
  then show ?case by (simp add: winners_def)
next
  case (Cons c calls)
  obtain now n where c: "c = (now, n)" by (cases c)
  have a: "challenges (snd (validate_and_consume st now n)) nonce = None"
    using Cons.prems by (rule consume_keeps_absent)
  have b: "n = nonce \<Longrightarrow> fst (validate_and_consume st now n) = None"
    using Cons.prems by (simp add: consume_absent)
  from Cons.IH[OF a] b show ?case
    by (auto simp add: c split_beta Let_def winners_def)
qed

lemma winners_le1:
  "length (winners nonce calls (fst (consume_all st calls))) \<le> 1"
proof (induction calls arbitrary: st)
  case Nil
  then show ?case by (simp add: winners_def)
next
  case (Cons c calls)
  obtain now n where c: "c = (now, n)" by (cases c)
  let ?st' = "snd (validate_and_consume st now n)"
  show ?case
  proof (cases "n = nonce")
    case True
    have "challenges ?st' nonce = None" by (simp add: consume_removes True)
    then have "winners nonce calls (fst (consume_all ?st' calls)) = []" by (rule winners_absent)
    then show ?thesis
      by (auto simp add: c split_beta Let_def winners_def)
  next
    case False
    with Cons.IH[of ?st'] show ?thesis
      by (auto simp add: c split_beta Let_def winners_def)
  qed
qed

lemma winners_eq1:
  "find (\<lambda>c. snd c = nonce) calls = Some c \<Longrightarrow> challenges st nonce = Some e \<Longrightarrow>
     ttl st = T \<Longrightarrow> fst c - created e \<le> T \<Longrightarrow>
     winners nonce calls (fst (consume_all st calls)) = [Some (data e)]"
proof (induction calls arbitrary: st)
  case Nil
  then show ?case by simp
next
  case (Cons x calls)
  obtain now n where x: "x = (now, n)" by (cases x)
  let ?st' = "snd (validate_and_consume st now n)"
  show ?case
  proof (cases "n = nonce")
    case True
    then have cx: "c = (now, nonce)" using Cons.prems(1) x by simp
    have "challenges ?st' nonce = None" by (simp add: consume_removes True)
    then have w: "winners nonce calls (fst (consume_all ?st' calls)) = []" by (rule winners_absent)
    have r: "fst (validate_and_consume st now nonce) = Some (data e)"
      using Cons.prems(2,3,4) cx by (simp add: validate_and_consume_def)
    show ?thesis using w r True
      by (simp add: x split_beta Let_def winners_def)
  next
    case False
    then have f: "find (\<lambda>c. snd c = nonce) calls = Some c" using Cons.prems(1) x by simp
    have k: "challenges ?st' nonce = Some e"
      using False Cons.prems(2) by (simp add: consume_removes)
    have t: "ttl ?st' = T" using Cons.prems(3) by (simp add: consume_ttl)
    from Cons.IH[OF f k t Cons.prems(4)] False show ?thesis
      by (simp add: x split_beta Let_def winners_def)
  qed
qed

text \<open>
  Claim C1. For every nonce, at most one call of \<open>validate_and_consume\<close> returns a
  payload. In any run of calls, in whatever order the callers get the lock and whatever
  the clock says, at most one of the calls for the nonce gets a payload; once a call for
  the nonce has got a payload, every later call for it gets \<open>None\<close>, whatever calls
  come in between; and when the nonce is registered and the first caller for it is served
  within the TTL, exactly one caller gets the payload, the first one.
\<close>

theorem single_use:
  "length (winners nonce calls (fst (consume_all st calls))) \<le> 1 \<and>
   (fst (validate_and_consume st now nonce) \<noteq> None \<longrightarrow>
      fst (validate_and_consume
             (snd (consume_all (snd (validate_and_consume st now nonce)) between)) later nonce) = None) \<and>
   (challenges st nonce = Some e \<and> find (\<lambda>c. snd c = nonce) calls = Some first \<and>
      fst first - created e \<le> ttl st \<longrightarrow>
      winners nonce calls (fst (consume_all st calls)) = [Some (data e)])"
proof -
  have "challenges (snd (validate_and_consume st now nonce)) nonce = None"
    by (simp add: consume_removes)
  then have "challenges (snd (consume_all (snd (validate_and_consume st now nonce)) between)) nonce = None"
    by (rule consume_all_keeps_absent)
  then have "fst (validate_and_consume
             (snd (consume_all (snd (validate_and_consume st now nonce)) between)) later nonce) = None"
    by (rule consume_absent)
  then show ?thesis using winners_le1 winners_eq1 by blast
qed

theorem single_use_witness:
  "challenges (add (ChallengeStore_init 30) 0 ''race_nonce'' ''race'') ''race_nonce''
     = Some \<lparr>data = ''race'', created = 0\<rparr> \<and>
   (1::real) - 0 \<le> ttl (add (ChallengeStore_init 30) 0 ''race_nonce'' ''race'') \<and>
   fst (validate_and_consume (add (ChallengeStore_init 30) 0 ''race_nonce'' ''race'') 1 ''race_nonce'') \<noteq> None \<and>
   find (\<lambda>c. snd c = ''race_nonce'') (replicate 10 (1::real, ''race_nonce'')) = Some (1, ''race_nonce'') \<and>
   fst (consume_all (add (ChallengeStore_init 30) 0 ''race_nonce'' ''race'') (replicate 10 (1, ''race_nonce'')))
     = [Some ''race'', None, None, None, None, None, None, None, None, None] \<and>
   winners ''race_nonce'' (replicate 10 (1, ''race_nonce''))
     (fst (consume_all (add (ChallengeStore_init 30) 0 ''race_nonce'' ''race'') (replicate 10 (1, ''race_nonce''))))
     = [Some ''race''] \<and>
   fst (validate_and_consume
          (snd (consume_all (snd (validate_and_consume (add (ChallengeStore_init 30) 0 ''race_nonce'' ''race'') 1 ''race_nonce'')) [(2, ''other'')]))
          3 ''race_nonce'') = None"
  using single_use [of "''race_nonce''" "replicate 10 (1, ''race_nonce'')"
      "add (ChallengeStore_init 30) 0 ''race_nonce'' ''race''" 1 "[(2, ''other'')]" 3
      "\<lparr>data = ''race'', created = 0\<rparr>" "(1, ''race_nonce'')"]
  by (simp add: add_def ChallengeStore_init_def validate_and_consume_def numeral_nat)

text \<open>
  Claim C4. For a nonce registered at the time \<open>created e\<close>, a call at a time \<open>now\<close> with
  \<open>now - created e > ttl\<close> returns \<open>None\<close>, a call with \<open>now - created e \<le> ttl\<close> returns
  the stored payload, and in both cases the entry is removed and nothing else is: a
  later call for the nonce returns \<open>None\<close>, so an expired challenge cannot be retried.
\<close>

theorem expiry:
  "challenges st nonce = Some e \<Longrightarrow>
     (now - created e > ttl st \<longrightarrow> fst (validate_and_consume st now nonce) = None) \<and>
     (now - created e \<le> ttl st \<longrightarrow> fst (validate_and_consume st now nonce) = Some (data e)) \<and>
     challenges (snd (validate_and_consume st now nonce)) = (challenges st)(nonce := None) \<and>
     fst (validate_and_consume (snd (validate_and_consume st now nonce)) later nonce) = None"
  by (simp add: consume_removes consume_absent) (simp add: validate_and_consume_def)

theorem expiry_witness:
  "challenges (add (ChallengeStore_init 1) 0 ''nonce_expire'' ''expired'') ''nonce_expire''
     = Some \<lparr>data = ''expired'', created = 0\<rparr> \<and>
   (2::real) - 0 > 1 \<and>
   fst (validate_and_consume (add (ChallengeStore_init 1) 0 ''nonce_expire'' ''expired'') 2 ''nonce_expire'') = None \<and>
   challenges (snd (validate_and_consume (add (ChallengeStore_init 1) 0 ''nonce_expire'' ''expired'') 2 ''nonce_expire'')) ''nonce_expire'' = None \<and>
   (1::real) - 0 \<le> 1 \<and>
   fst (validate_and_consume (add (ChallengeStore_init 1) 0 ''nonce_expire'' ''expired'') 1 ''nonce_expire'') = Some ''expired''"
  using expiry [of "add (ChallengeStore_init 1) 0 ''nonce_expire'' ''expired''" "''nonce_expire''"
      "\<lparr>data = ''expired'', created = 0\<rparr>" 2 0]
    expiry [of "add (ChallengeStore_init 1) 0 ''nonce_expire'' ''expired''" "''nonce_expire''"
      "\<lparr>data = ''expired'', created = 0\<rparr>" 1 0]
  by (simp add: add_def ChallengeStore_init_def)

subsection \<open>verify\_signature\<close>

lemma verify_signature_total: "\<exists>b. verify_signature c pem m sg = Inr b"
  by (cases "verify_signature_body c pem m sg") (auto simp add: verify_signature_def)

lemma verify_signature_True_iff:
  "verify_signature c pem m sg = Inr True \<longleftrightarrow>
     HAS_CRYPTO c \<and> import_primitives c = None \<and>
     (\<exists>p k. pem = Some p \<and>
        (load_pem_public_key c p = Inr (Ed25519PublicKey k) \<and> ed25519_verify c k sg m = None \<or>
         load_pem_public_key c p = Inr (EllipticCurvePublicKey k) \<and>
           ecdsa_sha256_verify c k sg m = None))"
  by (auto simp add: verify_signature_def verify_signature_body_def
      split: sum.splits option.splits public_key.splits)

text \<open>
  Claim C3. \<open>verify_signature\<close> is total and fails closed: for every library, key text,
  message and signature it returns a boolean and raises nothing; without the
  cryptographic backend it returns \<open>False\<close>; every exception inside the \<open>try\<close> gives
  \<open>False\<close>; and it returns \<open>True\<close> only when the backend is there, the PEM text loads as
  an Ed25519 or an elliptic-curve key and the \<open>verify\<close> of that key returns normally.
\<close>

theorem verify_signature_fail_closed:
  "(\<exists>b. verify_signature c pem m sg = Inr b) \<and>
   (\<not> HAS_CRYPTO c \<longrightarrow> verify_signature c pem m sg = Inr False) \<and>
   (\<forall>e. verify_signature_body c pem m sg = Inl e \<longrightarrow> verify_signature c pem m sg = Inr False) \<and>
   (verify_signature c pem m sg = Inr True \<longleftrightarrow>
      HAS_CRYPTO c \<and> import_primitives c = None \<and>
      (\<exists>p k. pem = Some p \<and>
         (load_pem_public_key c p = Inr (Ed25519PublicKey k) \<and> ed25519_verify c k sg m = None \<or>
          load_pem_public_key c p = Inr (EllipticCurvePublicKey k) \<and>
            ecdsa_sha256_verify c k sg m = None)))"
proof -
  have "\<not> HAS_CRYPTO c \<longrightarrow> verify_signature c pem m sg = Inr False"
    by (simp add: verify_signature_def)
  moreover have "\<forall>e. verify_signature_body c pem m sg = Inl e \<longrightarrow>
      verify_signature c pem m sg = Inr False"
    by (auto simp add: verify_signature_def)
  ultimately show ?thesis
    using verify_signature_total [of c pem m sg] verify_signature_True_iff [of c pem m sg]
    by blast
qed

theorem verify_signature_fail_closed_witness:
  "\<not> HAS_CRYPTO (example_library\<lparr>HAS_CRYPTO := False\<rparr>) \<and>
   verify_signature (example_library\<lparr>HAS_CRYPTO := False\<rparr>) (Some ''PEM'') ''n1'' ''sig:n1'' = Inr False \<and>
   verify_signature_body example_library (Some ''unused'') ''n1'' ''sig:n1'' = Inl ValueError \<and>
   verify_signature example_library (Some ''unused'') ''n1'' ''sig:n1'' = Inr False \<and>
   verify_signature example_library (Some ''PEM'') ''n1'' ''sig:n1'' = Inr True"
  using verify_signature_fail_closed
      [of "example_library\<lparr>HAS_CRYPTO := False\<rparr>" "Some ''PEM''" "''n1''" "''sig:n1''"]
    verify_signature_fail_closed [of example_library "Some ''unused''" "''n1''" "''sig:n1''"]
    verify_signature_fail_closed [of example_library "Some ''PEM''" "''n1''" "''sig:n1''"]
  by (simp add: example_library_def verify_signature_body_def)

subsection \<open>What a request does to the registry and the outcome\<close>

lemma wfile_write_state:
  "challenge_store (snd (wfile_write req answer s)) = challenge_store s \<and>
   auth_result (snd (wfile_write req answer s)) = auth_result s \<and>
   device_pubkey_pem (snd (wfile_write req answer s)) = device_pubkey_pem s"
  by (simp add: wfile_write_def split: option.splits)

lemma send_error_state:
  "challenge_store (snd (send_error code message req s)) = challenge_store s \<and>
   auth_result (snd (send_error code message req s)) = auth_result s \<and>
   device_pubkey_pem (snd (send_error code message req s)) = device_pubkey_pem s"
  by (simp add: send_error_def wfile_write_state)

lemma send_error_written:
  "wfile_error req = None \<Longrightarrow>
     send_error code message req s = (None, s\<lparr>trace := trace s @ [Send_error code message]\<rparr>)"
  by (simp add: send_error_def wfile_write_def)

lemma send_error_failed:
  "wfile_error req = Some x \<Longrightarrow> send_error code message req s = (Some x, s)"
  by (simp add: send_error_def wfile_write_def)

lemma handler_auth_cases:
  "auth_result (snd (do_POST_try lib now req s)) = auth_result s \<or>
   auth_result (snd (do_POST_try lib now req s)) = set_result (auth_result s) True"
  by (simp add: do_POST_try_def Let_def send_error_state send_json_def wfile_write_def
        auth_result_set_def
      split: sum.split json.split option.split prod.split)

lemma do_POST_auth_cases:
  "auth_result (snd (do_POST lib now req s)) = auth_result s \<or>
   auth_result (snd (do_POST lib now req s)) = set_result (auth_result s) True"
  using handler_auth_cases [of lib now req s]
  by (auto simp add: do_POST_def send_error_state split: prod.splits option.splits)

lemma handle_one_request_auth_cases:
  "auth_result (snd (handle_one_request lib now req s)) = auth_result s \<or>
   auth_result (snd (handle_one_request lib now req s)) = set_result (auth_result s) True"
  using do_POST_auth_cases [of lib now req s]
  by (auto simp add: handle_one_request_def send_error_state split: parse_outcome.splits)




subsection \<open>AuthResult\<close>

text \<open>
  \<open>AuthResult.set\<close> has no guard: after \<open>set(True)\<close> the cell reads \<open>True\<close>, and after a
  second call \<open>set(False)\<close> it reads \<open>False\<close>, the value of the second call.
\<close>

theorem set_twice_counterexample:
  "wait (set_result AuthResult_init True) = Some True \<and>
   wait (set_result (set_result AuthResult_init True) False) = Some False"
  by (simp add: wait_def set_result_def AuthResult_init_def)

text \<open>
  Claim C2, as the code has it. \<open>AuthResult.set\<close> overwrites: after two calls the cell
  holds the value of the second one, which is the value of the first exactly when the
  two calls write the same value. The handler is the only caller and it writes nothing
  but \<open>True\<close>: a request leaves the cell as it is or sets it to \<open>True\<close>, so an outcome that
  is \<open>True\<close> stays \<open>True\<close>.
\<close>

theorem set_overwrites:
  "wait (set_result (set_result r a) b) = Some b \<and>
   (wait (set_result (set_result r a) b) = wait (set_result r a) \<longleftrightarrow> a = b) \<and>
   (auth_result (snd (handle_one_request lib now req s)) = auth_result s \<or>
    auth_result (snd (handle_one_request lib now req s)) = set_result (auth_result s) True) \<and>
   (wait (auth_result s) = Some True \<longrightarrow>
      wait (auth_result (snd (handle_one_request lib now req s))) = Some True)"
  using handle_one_request_auth_cases [of lib now req s]
  by (auto simp add: wait_def set_result_def)

theorem set_overwrites_witness:
  "wait (auth_result (example_server\<lparr>auth_result := set_result AuthResult_init True\<rparr>)) = Some True \<and>
   wait (auth_result (snd (handle_one_request example_library 5 (post ''40'' body_ok)
      (example_server\<lparr>auth_result := set_result AuthResult_init True\<rparr>)))) = Some True \<and>
   wait (set_result (set_result AuthResult_init True) True) = wait (set_result AuthResult_init True)"
  using set_overwrites [of AuthResult_init True True example_library 5 "post ''40'' body_ok"
      "example_server\<lparr>auth_result := set_result AuthResult_init True\<rparr>"]
  by (simp add: wait_def set_result_def)

subsection \<open>The answers of the handler\<close>

text \<open>
  A valid request on a connection that the peer has reset: the write of the 200 answer
  raises, the exception leaves the handler, and \<open>auth_result.set(True)\<close> is not reached.
  The challenge is consumed and the outcome stays undecided.
\<close>

theorem valid_post_write_fails_counterexample:
  "valid_request example_library 5 ((post ''40'' body_ok)\<lparr>wfile_error := Some OSError\<rparr>)
     example_server \<and>
   do_POST example_library 5 ((post ''40'' body_ok)\<lparr>wfile_error := Some OSError\<rparr>) example_server
     = (Some OSError,
        example_server
          \<lparr>challenge_store := (challenge_store example_server)\<lparr>challenges := Map.empty\<rparr>,
           trace := [Rfile_read 40]\<rparr>) \<and>
   result (auth_result (snd (do_POST example_library 5
      ((post ''40'' body_ok)\<lparr>wfile_error := Some OSError\<rparr>) example_server))) = None"
proof -
  let ?req = "(post ''40'' body_ok)\<lparr>wfile_error := Some OSError\<rparr>"
  have p: "parse ?req = Parse_ok" "command ?req = ''POST''" "path ?req = ''/auth/response''"
    "wfile_error ?req = Some OSError"
    by (simp_all add: post_def path_def)
  have c: "content_length_of example_library ?req = Inr 40"
    by (simp add: post_def content_length_of_def example_library_def)
  have r: "rfile_read ?req 40 = Inr body_ok"
    by (simp add: post_def rfile_read_def body_ok_def)
  have j: "json_loads example_library body_ok
     = Inr (JObj [(''nonce'', JStr ''n1''), (''signature'', JStr ''c2lnOm4x'')])"
    by (simp add: example_library_def)
  have b: "b64decode example_library ''c2lnOm4x'' = Inr ''sig:n1''"
    by (simp add: example_library_def)
  have n: "str_encode example_library ''n1'' = Inr ''n1''"
    by (simp add: example_library_def)
  have v: "verify_signature example_library (Some ''PEM'') ''n1'' ''sig:n1'' = Inr True"
    by (simp add: example_library_def verify_signature_def verify_signature_body_def)
  have s: "challenge_store example_server
      = \<lparr>ttl = 30, challenges = Map.empty(''n1'' \<mapsto> \<lparr>data = ''{}'', created = 0\<rparr>)\<rparr>"
    "device_pubkey_pem example_server = Some ''PEM''" "trace example_server = []"
    "auth_result example_server = AuthResult_init"
    by (simp_all add: example_server_def register_def server_init_def add_def ChallengeStore_init_def)
  have va: "valid_request example_library 5 ?req example_server"
    by (simp add: valid_request_def p c r j b n v s dict_get_def)
  have d: "do_POST example_library 5 ?req example_server
     = (Some OSError,
        example_server
          \<lparr>challenge_store := (challenge_store example_server)\<lparr>challenges := Map.empty\<rparr>,
           trace := [Rfile_read 40]\<rparr>)"
    by (simp add: do_POST_def do_POST_try_def Let_def p c r j b n v s dict_get_def
        consume_nonce_def validate_and_consume_def py_b64decode_def encode_def send_json_def
        send_error_def wfile_write_def caught_def)
  show ?thesis
    using va d s by (simp add: AuthResult_init_def)
qed

text \<open>
  Claim C6, as the code has it. For a POST to \<open>/auth/response\<close> whose body the handler
  reads (a declared length of at most 4096 and not below -1) and whose JSON object
  carries a registered, unexpired, non-empty nonce and a non-empty base64 signature
  that verifies under the device key over the bytes of the nonce: the challenge is
  consumed and the handler writes 200 with the JSON acknowledgement \<open>{"status": "ok"}\<close>.
  If the write succeeds, the outcome is then set to \<open>True\<close>, after the answer. If the
  write raises, the exception leaves the handler, nothing is answered and the outcome
  stays as it was.
\<close>

theorem valid_post_200_then_commit:
  assumes "path req = ''/auth/response''"
    and "content_length_of lib req = Inr n" and "n \<le> 4096"
    and "rfile_read req n = Inr body"
    and "json_loads lib body = Inr (JObj kvs)"
    and "dict_get kvs ''nonce'' = JStr nonce" and "nonce \<noteq> []"
    and "dict_get kvs ''signature'' = JStr sig_b64" and "sig_b64 \<noteq> []"
    and "challenges (challenge_store s) nonce = Some e"
    and "now - created e \<le> ttl (challenge_store s)"
    and "b64decode lib sig_b64 = Inr sg"
    and "str_encode lib nonce = Inr nonce_bytes"
    and "verify_signature lib (device_pubkey_pem s) nonce_bytes sg = Inr True"
  shows "(wfile_error req = None \<longrightarrow>
            do_POST lib now req s =
              (None,
               s\<lparr>challenge_store :=
                    (challenge_store s)\<lparr>challenges := (challenges (challenge_store s))(nonce := None)\<rparr>,
                 auth_result := set_result (auth_result s) True,
                 trace := trace s @
                    [Rfile_read n, Send_json 200 (JObj [(''status'', JStr ''ok'')]), Auth_set True]\<rparr>))
       \<and> (\<forall>x. wfile_error req = Some x \<longrightarrow>
            do_POST lib now req s =
              (Some x,
               s\<lparr>challenge_store :=
                    (challenge_store s)\<lparr>challenges := (challenges (challenge_store s))(nonce := None)\<rparr>,
                 trace := trace s @ [Rfile_read n]\<rparr>))"
  using assms
  by (simp add: do_POST_def do_POST_try_def Let_def consume_nonce_def validate_and_consume_def
      py_b64decode_def encode_def send_json_def send_error_def wfile_write_def auth_result_set_def)

theorem valid_post_200_then_commit_witness:
  "path (post ''40'' body_ok) = ''/auth/response'' \<and>
   content_length_of example_library (post ''40'' body_ok) = Inr 40 \<and> (40::int) \<le> 4096 \<and>
   rfile_read (post ''40'' body_ok) 40 = Inr body_ok \<and>
   json_loads example_library body_ok
     = Inr (JObj [(''nonce'', JStr ''n1''), (''signature'', JStr ''c2lnOm4x'')]) \<and>
   challenges (challenge_store example_server) ''n1'' = Some \<lparr>data = ''{}'', created = 0\<rparr> \<and>
   (5::real) - 0 \<le> ttl (challenge_store example_server) \<and>
   b64decode example_library ''c2lnOm4x'' = Inr ''sig:n1'' \<and>
   str_encode example_library ''n1'' = Inr ''n1'' \<and>
   verify_signature example_library (device_pubkey_pem example_server) ''n1'' ''sig:n1'' = Inr True \<and>
   wfile_error (post ''40'' body_ok) = None \<and>
   fst (do_POST example_library 5 (post ''40'' body_ok) example_server) = None \<and>
   trace (snd (do_POST example_library 5 (post ''40'' body_ok) example_server))
     = [Rfile_read 40, Send_json 200 (JObj [(''status'', JStr ''ok'')]), Auth_set True] \<and>
   result (auth_result (snd (do_POST example_library 5 (post ''40'' body_ok) example_server))) = Some True \<and>
   challenges (challenge_store (snd (do_POST example_library 5 (post ''40'' body_ok) example_server))) ''n1''
     = None \<and>
   wfile_error ((post ''40'' body_ok)\<lparr>wfile_error := Some OSError\<rparr>) = Some OSError \<and>
   fst (do_POST example_library 5 ((post ''40'' body_ok)\<lparr>wfile_error := Some OSError\<rparr>)
     example_server) = Some OSError \<and>
   result (auth_result (snd (do_POST example_library 5
     ((post ''40'' body_ok)\<lparr>wfile_error := Some OSError\<rparr>) example_server))) = None"
proof -
  let ?bad = "(post ''40'' body_ok)\<lparr>wfile_error := Some OSError\<rparr>"
  have p: "path (post ''40'' body_ok) = ''/auth/response''" "path ?bad = ''/auth/response''"
    by (simp_all add: post_def path_def)
  have w: "wfile_error (post ''40'' body_ok) = None" "wfile_error ?bad = Some OSError"
    by (simp_all add: post_def)
  have c: "content_length_of example_library (post ''40'' body_ok) = Inr 40"
    "content_length_of example_library ?bad = Inr 40"
    by (simp_all add: post_def content_length_of_def example_library_def)
  have r: "rfile_read (post ''40'' body_ok) 40 = Inr body_ok" "rfile_read ?bad 40 = Inr body_ok"
    by (simp_all add: post_def rfile_read_def body_ok_def)
  have j: "json_loads example_library body_ok
     = Inr (JObj [(''nonce'', JStr ''n1''), (''signature'', JStr ''c2lnOm4x'')])"
    by (simp add: example_library_def)
  have gn: "dict_get [(''nonce'', JStr ''n1''), (''signature'', JStr ''c2lnOm4x'')] ''nonce'' = JStr ''n1''"
    by (simp add: dict_get_def)
  have gs: "dict_get [(''nonce'', JStr ''n1''), (''signature'', JStr ''c2lnOm4x'')] ''signature''
      = JStr ''c2lnOm4x''"
    by (simp add: dict_get_def)
  have ch: "challenges (challenge_store example_server) ''n1'' = Some \<lparr>data = ''{}'', created = 0\<rparr>"
    by (simp add: example_server_def register_def server_init_def add_def ChallengeStore_init_def)
  have t: "(5::real) - created \<lparr>data = ''{}'', created = 0\<rparr> \<le> ttl (challenge_store example_server)"
    by (simp add: example_server_def register_def server_init_def add_def ChallengeStore_init_def)
  have b: "b64decode example_library ''c2lnOm4x'' = Inr ''sig:n1''"
    by (simp add: example_library_def)
  have n: "str_encode example_library ''n1'' = Inr ''n1''"
    by (simp add: example_library_def)
  have v: "verify_signature example_library (device_pubkey_pem example_server) ''n1'' ''sig:n1'' = Inr True"
    by (simp add: example_library_def example_server_def register_def verify_signature_def
        verify_signature_body_def)
  show ?thesis
    using valid_post_200_then_commit [OF p(1) c(1) _ r(1) j gn _ gs _ ch t b n v]
      valid_post_200_then_commit [OF p(2) c(2) _ r(2) j gn _ gs _ ch t b n v]
      p c r j ch t b n v w
    by (simp add: example_server_def register_def server_init_def add_def ChallengeStore_init_def
        set_result_def AuthResult_init_def)
qed

text \<open>
  The size check is on the declared length: a POST to \<open>/auth/response\<close> whose
  \<open>Content-Length\<close> is more than 4096 is answered 413 and nothing else happens: nothing
  is read from the connection, nothing is parsed, no challenge is consumed, no signature
  is verified and the outcome stays as it is.
\<close>

theorem oversized_413:
  assumes "path req = ''/auth/response''"
    and "content_length_of lib req = Inr n" and "n > 4096"
  shows "do_POST lib now req s = send_error 413 None req s \<and>
         (wfile_error req = None \<longrightarrow>
            do_POST lib now req s = (None, s\<lparr>trace := trace s @ [Send_error 413 None]\<rparr>))"
  using assms
  by (auto simp add: do_POST_def do_POST_try_def send_error_def wfile_write_def
      split: prod.splits option.splits)

theorem oversized_413_witness:
  "path (post ''5000'' (replicate 5000 CHR ''x'')) = ''/auth/response'' \<and>
   content_length_of example_library (post ''5000'' (replicate 5000 CHR ''x'')) = Inr 5000 \<and>
   (5000::int) > 4096 \<and>
   wfile_error (post ''5000'' (replicate 5000 CHR ''x'')) = None \<and>
   do_POST example_library 1 (post ''5000'' (replicate 5000 CHR ''x'')) example_server
     = (None, example_server\<lparr>trace := [Send_error 413 None]\<rparr>)"
proof -
  have p: "path (post ''5000'' (replicate 5000 CHR ''x'')) = ''/auth/response''"
    by (simp add: post_def path_def)
  have c: "content_length_of example_library (post ''5000'' (replicate 5000 CHR ''x'')) = Inr 5000"
    by (simp add: post_def content_length_of_def example_library_def)
  have w: "wfile_error (post ''5000'' (replicate 5000 CHR ''x'')) = None"
    by (simp add: post_def)
  have t: "trace example_server = []"
    by (simp add: example_server_def register_def server_init_def)
  show ?thesis
    using oversized_413 [OF p c, of 1 example_server] p c t w
    by (simp add: send_error_def wfile_write_def)
qed

text \<open>
  Claim C9 asks that every POST to \<open>/auth/response\<close> whose body is more than 4096 bytes
  is answered 413 without the body being buffered, and that nothing else is done with
  it. The check \<open>content_length > 4096\<close> has no lower bound, and \<open>rfile.read(-1)\<close> reads
  to the end of the stream: a request that declares \<open>Content-Length: -1\<close> and sends 5000
  bytes (a valid body followed by spaces) is read in full, parsed, its nonce consumed
  and its signature verified, and it is answered 200.
\<close>

theorem negative_content_length_reads_all:
  "length body_padded = 5000 \<and>
   content_length_of example_library (post ''-1'' body_padded) = Inr (- 1) \<and>
   rfile_read (post ''-1'' body_padded) (- 1) = Inr body_padded \<and>
   fst (do_POST example_library 5 (post ''-1'' body_padded) example_server) = None \<and>
   trace (snd (do_POST example_library 5 (post ''-1'' body_padded) example_server))
     = [Rfile_read (- 1), Send_json 200 (JObj [(''status'', JStr ''ok'')]), Auth_set True] \<and>
   result (auth_result (snd (do_POST example_library 5 (post ''-1'' body_padded) example_server)))
     = Some True"
proof -
  have l: "length body_padded = 5000"
    by (simp add: body_padded_def body_ok_def)
  have c: "content_length_of example_library (post ''-1'' body_padded) = Inr (- 1)"
    by (simp add: post_def content_length_of_def example_library_def)
  have r: "rfile_read (post ''-1'' body_padded) (- 1) = Inr body_padded"
    by (simp add: post_def rfile_read_def)
  have ne: "body_padded \<noteq> body_ok" "body_padded \<noteq> body_bad_b64"
    "body_padded \<noteq> body_no_signature" "body_padded \<noteq> body_empty_nonce"
    by (simp_all add: body_padded_def body_ok_def body_bad_b64_def body_no_signature_def
        body_empty_nonce_def)
  have j: "json_loads example_library body_padded
      = Inr (JObj [(''nonce'', JStr ''n1''), (''signature'', JStr ''c2lnOm4x'')])"
    using ne by (simp add: example_library_def)
  have p: "path (post ''-1'' body_padded) = ''/auth/response''"
    "wfile_error (post ''-1'' body_padded) = None"
    by (simp_all add: post_def path_def)
  have v: "verify_signature example_library (Some ''PEM'') ''n1'' ''sig:n1'' = Inr True"
    by (simp add: example_library_def verify_signature_def verify_signature_body_def)
  have b: "b64decode example_library ''c2lnOm4x'' = Inr ''sig:n1''"
    by (simp add: example_library_def)
  have n: "str_encode example_library ''n1'' = Inr ''n1''"
    by (simp add: example_library_def)
  have d: "do_POST example_library 5 (post ''-1'' body_padded) example_server
     = (None, example_server
         \<lparr>challenge_store := (challenge_store example_server)\<lparr>challenges := Map.empty\<rparr>,
          auth_result := set_result AuthResult_init True,
          trace := [Rfile_read (- 1), Send_json 200 (JObj [(''status'', JStr ''ok'')]), Auth_set True]\<rparr>)"
    by (simp add: do_POST_def do_POST_try_def Let_def p c r j v b n dict_get_def consume_nonce_def
        validate_and_consume_def py_b64decode_def encode_def send_json_def wfile_write_def
        auth_result_set_def
        example_server_def register_def server_init_def add_def ChallengeStore_init_def)
  show ?thesis
    using l c r d by (simp add: set_result_def)
qed

text \<open>
  Claim C10. A POST to \<open>/auth/response\<close> whose JSON object has a falsy \<open>nonce\<close> or
  \<open>signature\<close> (the empty string, \<open>null\<close>, \<open>false\<close>, zero, an empty list or object) is
  answered 400 \<open>Missing nonce or signature\<close>, as a missing field is (\<open>get\<close> gives \<open>None\<close> for
  it, which is falsy), and the registry and the outcome stay as they are, whether or
  not the answer can be written; the empty string is falsy, so a challenge registered
  under it is never consumed or verified.
\<close>

theorem falsy_field_400:
  assumes "path req = ''/auth/response''"
    and "content_length_of lib req = Inr n" and "n \<le> 4096"
    and "rfile_read req n = Inr body"
    and "json_loads lib body = Inr (JObj kvs)"
    and "\<not> truthy (dict_get kvs ''nonce'') \<or> \<not> truthy (dict_get kvs ''signature'')"
  shows "do_POST lib now req s =
           send_error 400 (Some ''Missing nonce or signature'') req
             (s\<lparr>trace := trace s @ [Rfile_read n]\<rparr>)
         \<and> (wfile_error req = None \<longrightarrow>
              do_POST lib now req s =
                (None, s\<lparr>trace := trace s @
                           [Rfile_read n, Send_error 400 (Some ''Missing nonce or signature'')]\<rparr>))
         \<and> challenge_store (snd (do_POST lib now req s)) = challenge_store s
         \<and> auth_result (snd (do_POST lib now req s)) = auth_result s
         \<and> (\<forall>key. map_of kvs key = None \<longrightarrow> \<not> truthy (dict_get kvs key))
         \<and> \<not> truthy (JStr [])"
proof -
  have t: "do_POST_try lib now req s =
      send_error 400 (Some ''Missing nonce or signature'') req (s\<lparr>trace := trace s @ [Rfile_read n]\<rparr>)"
    using assms by (auto simp add: do_POST_try_def Let_def)
  have d: "do_POST lib now req s =
      send_error 400 (Some ''Missing nonce or signature'') req (s\<lparr>trace := trace s @ [Rfile_read n]\<rparr>)"
    using assms(1) t
    by (cases "wfile_error req") (simp_all add: do_POST_def send_error_def wfile_write_def)
  have w: "wfile_error req = None \<longrightarrow>
      do_POST lib now req s =
        (None, s\<lparr>trace := trace s @
                   [Rfile_read n, Send_error 400 (Some ''Missing nonce or signature'')]\<rparr>)"
    by (simp add: d send_error_def wfile_write_def)
  have k: "\<forall>key. map_of kvs key = None \<longrightarrow> \<not> truthy (dict_get kvs key)"
    by (simp add: dict_get_def)
  show ?thesis
    using d w k by (simp add: send_error_state)
qed

theorem falsy_field_400_witness:
  "path (post ''38'' body_empty_nonce) = ''/auth/response'' \<and>
   content_length_of example_library (post ''38'' body_empty_nonce) = Inr 38 \<and> (38::int) \<le> 4096 \<and>
   rfile_read (post ''38'' body_empty_nonce) 38 = Inr body_empty_nonce \<and>
   json_loads example_library body_empty_nonce
     = Inr (JObj [(''nonce'', JStr []), (''signature'', JStr ''c2lnOm4x'')]) \<and>
   \<not> truthy (dict_get [(''nonce'', JStr []), (''signature'', JStr ''c2lnOm4x'')] ''nonce'') \<and>
   wfile_error (post ''38'' body_empty_nonce) = None \<and>
   do_POST example_library 1 (post ''38'' body_empty_nonce)
       (example_server\<lparr>challenge_store := add (challenge_store example_server) 0 [] ''{}''\<rparr>)
     = (None, example_server\<lparr>challenge_store := add (challenge_store example_server) 0 [] ''{}'',
                trace := [Rfile_read 38, Send_error 400 (Some ''Missing nonce or signature'')]\<rparr>)"
proof -
  have p: "path (post ''38'' body_empty_nonce) = ''/auth/response''"
    by (simp add: post_def path_def)
  have w: "wfile_error (post ''38'' body_empty_nonce) = None"
    by (simp add: post_def)
  have c: "content_length_of example_library (post ''38'' body_empty_nonce) = Inr 38"
    by (simp add: post_def content_length_of_def example_library_def)
  have r: "rfile_read (post ''38'' body_empty_nonce) 38 = Inr body_empty_nonce"
    by (simp add: post_def rfile_read_def body_empty_nonce_def)
  have j: "json_loads example_library body_empty_nonce
     = Inr (JObj [(''nonce'', JStr []), (''signature'', JStr ''c2lnOm4x'')])"
    by (simp add: example_library_def body_empty_nonce_def body_ok_def
        body_bad_b64_def body_no_signature_def)
  have f: "\<not> truthy (dict_get [(''nonce'', JStr []), (''signature'', JStr ''c2lnOm4x'')] ''nonce'')"
    by (simp add: dict_get_def)
  have t: "trace example_server = []"
    by (simp add: example_server_def register_def server_init_def)
  show ?thesis
    using falsy_field_400 [OF p c _ r j, of 1
        "example_server\<lparr>challenge_store := add (challenge_store example_server) 0 [] ''{}''\<rparr>"]
      p c r j f t w
    by (simp add: send_error_def wfile_write_def)
qed

lemma path_served_iff:
  "path req = ''/auth/response'' \<longleftrightarrow>
     (\<exists>k. requestline_path req = replicate (Suc k) CHR ''/'' @ ''auth/response'')"
proof
  assume a: "path req = ''/auth/response''"
  show "\<exists>k. requestline_path req = replicate (Suc k) CHR ''/'' @ ''auth/response''"
  proof (cases "take 2 (requestline_path req) = ''//''")
    case False
    with a have "requestline_path req = replicate (Suc 0) CHR ''/'' @ ''auth/response''"
      by (simp add: path_def)
    then show ?thesis by blast
  next
    case True
    let ?p = "requestline_path req"
    from a True have d: "dropWhile (\<lambda>c. c = CHR ''/'') ?p = ''auth/response''"
      by (simp add: path_def)
    have "\<forall>y\<in>set (takeWhile (\<lambda>c. c = CHR ''/'') ?p). y = CHR ''/''"
      by (auto dest: set_takeWhileD)
    then have t: "replicate (length (takeWhile (\<lambda>c. c = CHR ''/'') ?p)) CHR ''/''
        = takeWhile (\<lambda>c. c = CHR ''/'') ?p"
      by (rule replicate_length_same)
    have "?p \<noteq> [] \<and> hd ?p = CHR ''/''"
      using True by (cases ?p) auto
    then have "takeWhile (\<lambda>c. c = CHR ''/'') ?p \<noteq> []"
      by (cases ?p) auto
    then obtain k where k: "length (takeWhile (\<lambda>c. c = CHR ''/'') ?p) = Suc k"
      by (cases "takeWhile (\<lambda>c. c = CHR ''/'') ?p") auto
    have "?p = takeWhile (\<lambda>c. c = CHR ''/'') ?p @ dropWhile (\<lambda>c. c = CHR ''/'') ?p"
      by simp
    with d t k have "?p = replicate (Suc k) CHR ''/'' @ ''auth/response''"
      by metis
    then show ?thesis by blast
  qed
next
  assume "\<exists>k. requestline_path req = replicate (Suc k) CHR ''/'' @ ''auth/response''"
  then obtain k where k: "requestline_path req = replicate (Suc k) CHR ''/'' @ ''auth/response''"
    by blast
  have d: "dropWhile (\<lambda>c. c = CHR ''/'') (replicate k CHR ''/'' @ ''auth/response'') = ''auth/response''"
    by (induction k) simp_all
  show "path req = ''/auth/response''"
  proof (cases k)
    case 0
    with k show ?thesis by (simp add: path_def)
  next
    case (Suc j)
    with k d show ?thesis by (simp add: path_def)
  qed
qed

text \<open>
  A GET of \<open>/auth/response\<close> is answered 501, not 404: the class has no \<open>do_GET\<close>.
\<close>

theorem other_method_counterexample:
  "handle_one_request example_library 1
     \<lparr>parse = Parse_ok, command = ''GET'', requestline_path = ''/auth/response'',
      content_length_header = None, rfile = [], wfile_error = None\<rparr>
     example_server
   = (None, example_server\<lparr>trace := [Send_error 501 None]\<rparr>)"
  by (simp add: handle_one_request_def send_error_def wfile_write_def
      example_server_def register_def server_init_def)

text \<open>
  Claim C7, as the code has it. Of the requests that the library parses, a POST is
  answered 404 unless \<open>self.path\<close> is \<open>/auth/response\<close>, which it is exactly when the path
  of the request line is \<open>/auth/response\<close> with one or more leading slashes (the library
  reduces a leading run of slashes to one, so \<open>//auth/response\<close> is served); a request
  with any other method never reaches \<open>do_POST\<close> and is answered 501 by the base class.
  A request that the library does not parse is answered by the library with its own
  error status, or not at all, before any dispatch. On a connection that takes the
  answer, the answer is all that happens.
\<close>

theorem wrong_path_404:
  "(parse req = Parse_ok \<and> command req = ''POST'' \<and> path req \<noteq> ''/auth/response'' \<longrightarrow>
      handle_one_request lib now req s = send_error 404 None req s) \<and>
   (path req = ''/auth/response'' \<longleftrightarrow>
      (\<exists>k. requestline_path req = replicate (Suc k) CHR ''/'' @ ''auth/response'')) \<and>
   (parse req = Parse_ok \<and> command req = ''POST'' \<and> path req = ''/auth/response'' \<longrightarrow>
      handle_one_request lib now req s = do_POST lib now req s) \<and>
   (parse req = Parse_ok \<and> command req \<noteq> ''POST'' \<longrightarrow>
      handle_one_request lib now req s = send_error 501 None req s) \<and>
   (\<forall>code. parse req = Parse_error code \<longrightarrow>
      handle_one_request lib now req s = send_error code None req s) \<and>
   (parse req = Parse_silent \<longrightarrow> handle_one_request lib now req s = (None, s)) \<and>
   (\<forall>code. wfile_error req = None \<longrightarrow>
      send_error code None req s = (None, s\<lparr>trace := trace s @ [Send_error code None]\<rparr>))"
  using path_served_iff [of req]
  by (simp add: handle_one_request_def do_POST_def send_error_written)

theorem wrong_path_404_witness:
  "parse ((post ''8'' ''not json'')\<lparr>requestline_path := ''/wrong''\<rparr>) = Parse_ok \<and>
   command ((post ''8'' ''not json'')\<lparr>requestline_path := ''/wrong''\<rparr>) = ''POST'' \<and>
   path ((post ''8'' ''not json'')\<lparr>requestline_path := ''/wrong''\<rparr>) \<noteq> ''/auth/response'' \<and>
   handle_one_request example_library 1 ((post ''8'' ''not json'')\<lparr>requestline_path := ''/wrong''\<rparr>)
     example_server
     = (None, example_server\<lparr>trace := [Send_error 404 None]\<rparr>) \<and>
   command ((post ''8'' ''not json'')\<lparr>command := ''PUT''\<rparr>) \<noteq> ''POST'' \<and>
   handle_one_request example_library 1 ((post ''8'' ''not json'')\<lparr>command := ''PUT''\<rparr>) example_server
     = (None, example_server\<lparr>trace := [Send_error 501 None]\<rparr>) \<and>
   parse ((post ''8'' ''not json'')\<lparr>parse := Parse_error 505\<rparr>) = Parse_error 505 \<and>
   handle_one_request example_library 1 ((post ''8'' ''not json'')\<lparr>parse := Parse_error 505\<rparr>)
     example_server
     = (None, example_server\<lparr>trace := [Send_error 505 None]\<rparr>) \<and>
   path ((post ''40'' body_ok)\<lparr>requestline_path := ''//auth/response''\<rparr>) = ''/auth/response'' \<and>
   handle_one_request example_library 5 ((post ''40'' body_ok)\<lparr>requestline_path := ''//auth/response''\<rparr>)
     example_server
     = do_POST example_library 5 ((post ''40'' body_ok)\<lparr>requestline_path := ''//auth/response''\<rparr>)
         example_server \<and>
   trace (snd (handle_one_request example_library 5
       ((post ''40'' body_ok)\<lparr>requestline_path := ''//auth/response''\<rparr>) example_server))
     = [Rfile_read 40, Send_json 200 (JObj [(''status'', JStr ''ok'')]), Auth_set True]"
proof -
  let ?slashes = "(post ''40'' body_ok)\<lparr>requestline_path := ''//auth/response''\<rparr>"
  have t: "trace example_server = []"
    by (simp add: example_server_def register_def server_init_def)
  have p: "path ?slashes = ''/auth/response''" "wfile_error ?slashes = None"
    by (simp_all add: post_def path_def)
  have c: "content_length_of example_library ?slashes = Inr 40"
    by (simp add: post_def content_length_of_def example_library_def)
  have r: "rfile_read ?slashes 40 = Inr body_ok"
    by (simp add: post_def rfile_read_def body_ok_def)
  have j: "json_loads example_library body_ok
     = Inr (JObj [(''nonce'', JStr ''n1''), (''signature'', JStr ''c2lnOm4x'')])"
    by (simp add: example_library_def)
  have b: "b64decode example_library ''c2lnOm4x'' = Inr ''sig:n1''"
    by (simp add: example_library_def)
  have n: "str_encode example_library ''n1'' = Inr ''n1''"
    by (simp add: example_library_def)
  have v: "verify_signature example_library (Some ''PEM'') ''n1'' ''sig:n1'' = Inr True"
    by (simp add: example_library_def verify_signature_def verify_signature_body_def)
  have d: "trace (snd (do_POST example_library 5 ?slashes example_server))
     = [Rfile_read 40, Send_json 200 (JObj [(''status'', JStr ''ok'')]), Auth_set True]"
    by (simp add: do_POST_def do_POST_try_def Let_def p c r j v b n dict_get_def consume_nonce_def
        validate_and_consume_def py_b64decode_def encode_def send_json_def wfile_write_def
        auth_result_set_def
        example_server_def register_def server_init_def add_def ChallengeStore_init_def)
  show ?thesis
    using wrong_path_404 [of "(post ''8'' ''not json'')\<lparr>requestline_path := ''/wrong''\<rparr>"
        example_library 1 example_server]
      wrong_path_404 [of "(post ''8'' ''not json'')\<lparr>command := ''PUT''\<rparr>" example_library 1
        example_server]
      wrong_path_404 [of "(post ''8'' ''not json'')\<lparr>parse := Parse_error 505\<rparr>" example_library 1
        example_server]
      wrong_path_404 [of ?slashes example_library 5 example_server]
      t p d
    by (simp add: post_def path_def send_error_def wfile_write_def)
qed

text \<open>
  A POST with the registered nonce \<open>n1\<close> and the signature \<open>abc\<close>, which is not valid
  base64: the answer is 400, and the challenge \<open>n1\<close> is gone from the registry.
\<close>

theorem bad_base64_counterexample:
  "challenges (challenge_store example_server) ''n1'' = Some \<lparr>data = ''{}'', created = 0\<rparr> \<and>
   py_b64decode example_library (JStr ''abc'') = Inl BinasciiError \<and>
   fst (do_POST example_library 5 (post ''35'' body_bad_b64) example_server) = None \<and>
   trace (snd (do_POST example_library 5 (post ''35'' body_bad_b64) example_server))
     = [Rfile_read 35, Send_error 400 (Some ''Invalid request'')] \<and>
   challenges (challenge_store (snd (do_POST example_library 5 (post ''35'' body_bad_b64) example_server)))
     ''n1'' = None"
  by (simp add: do_POST_def do_POST_try_def Let_def post_def path_def content_length_of_def
      rfile_read_def example_library_def body_bad_b64_def body_ok_def dict_get_def
      consume_nonce_def validate_and_consume_def py_b64decode_def caught_def send_error_def
      wfile_write_def
      example_server_def register_def server_init_def add_def ChallengeStore_init_def)

text \<open>
  Claim C5, as the code has it. For a POST to \<open>/auth/response\<close> whose body the handler
  reads (a declared length of at most 4096 and not below -1): a body that \<open>json.loads\<close>
  rejects with a \<open>ValueError\<close>, and a JSON object without \<open>nonce\<close> or without
  \<open>signature\<close>, are answered 400 and leave the registry and the outcome as they are. A
  signature that fails base64 decoding is looked at only after the nonce has been
  consumed: the registry is what \<open>validate_and_consume\<close> leaves, the answer is 400 if
  that call returned a payload and 403 if it did not, and the outcome stays as it is.
  An answer changes neither the registry nor the outcome, and on a connection that
  takes it, it is written.
\<close>

theorem malformed_input_400:
  assumes "path req = ''/auth/response''"
    and "content_length_of lib req = Inr n" and "n \<le> 4096"
    and "rfile_read req n = Inr body"
  shows "(\<forall>e. json_loads lib body = Inl e \<and> caught e \<longrightarrow>
            do_POST lib now req s =
              send_error 400 (Some ''Invalid request'') req (s\<lparr>trace := trace s @ [Rfile_read n]\<rparr>))
       \<and> (\<forall>kvs. json_loads lib body = Inr (JObj kvs) \<and>
                 (map_of kvs ''nonce'' = None \<or> map_of kvs ''signature'' = None) \<longrightarrow>
            do_POST lib now req s =
              send_error 400 (Some ''Missing nonce or signature'') req
                (s\<lparr>trace := trace s @ [Rfile_read n]\<rparr>))
       \<and> (\<forall>kvs nonce sig_b64 e.
             json_loads lib body = Inr (JObj kvs) \<and>
             dict_get kvs ''nonce'' = JStr nonce \<and> nonce \<noteq> [] \<and>
             dict_get kvs ''signature'' = JStr sig_b64 \<and> sig_b64 \<noteq> [] \<and>
             b64decode lib sig_b64 = Inl e \<and> caught e \<longrightarrow>
            do_POST lib now req s =
              (if fst (validate_and_consume (challenge_store s) now nonce) = None
               then send_error 403 (Some ''Invalid or expired challenge'') req
               else send_error 400 (Some ''Invalid request'') req)
                (s\<lparr>challenge_store := snd (validate_and_consume (challenge_store s) now nonce),
                   trace := trace s @ [Rfile_read n]\<rparr>))
       \<and> (\<forall>code message s'.
             challenge_store (snd (send_error code message req s')) = challenge_store s' \<and>
             auth_result (snd (send_error code message req s')) = auth_result s' \<and>
             (wfile_error req = None \<longrightarrow>
                send_error code message req s'
                  = (None, s'\<lparr>trace := trace s' @ [Send_error code message]\<rparr>)))"
proof (intro conjI allI impI)
  fix e
  assume "json_loads lib body = Inl e \<and> caught e"
  with assms show "do_POST lib now req s =
      send_error 400 (Some ''Invalid request'') req (s\<lparr>trace := trace s @ [Rfile_read n]\<rparr>)"
    by (simp add: do_POST_def do_POST_try_def Let_def)
next
  fix kvs
  assume a: "json_loads lib body = Inr (JObj kvs) \<and>
          (map_of kvs ''nonce'' = None \<or> map_of kvs ''signature'' = None)"
  then have f: "\<not> truthy (dict_get kvs ''nonce'') \<or> \<not> truthy (dict_get kvs ''signature'')"
    by (auto simp add: dict_get_def)
  have t: "do_POST_try lib now req s =
      send_error 400 (Some ''Missing nonce or signature'') req (s\<lparr>trace := trace s @ [Rfile_read n]\<rparr>)"
    using assms a f by (auto simp add: do_POST_try_def Let_def)
  show "do_POST lib now req s =
      send_error 400 (Some ''Missing nonce or signature'') req (s\<lparr>trace := trace s @ [Rfile_read n]\<rparr>)"
    using assms(1) t
    by (cases "wfile_error req") (simp_all add: do_POST_def send_error_def wfile_write_def)
next
  fix kvs nonce sig_b64 e
  assume a: "json_loads lib body = Inr (JObj kvs) \<and>
          dict_get kvs ''nonce'' = JStr nonce \<and> nonce \<noteq> [] \<and>
          dict_get kvs ''signature'' = JStr sig_b64 \<and> sig_b64 \<noteq> [] \<and>
          b64decode lib sig_b64 = Inl e \<and> caught e"
  obtain r st' where v: "validate_and_consume (challenge_store s) now nonce = (r, st')"
    by (cases "validate_and_consume (challenge_store s) now nonce")
  show "do_POST lib now req s =
      (if fst (validate_and_consume (challenge_store s) now nonce) = None
       then send_error 403 (Some ''Invalid or expired challenge'') req
       else send_error 400 (Some ''Invalid request'') req)
        (s\<lparr>challenge_store := snd (validate_and_consume (challenge_store s) now nonce),
           trace := trace s @ [Rfile_read n]\<rparr>)"
  proof (cases r)
    case None
    have eq: "s\<lparr>trace := trace s @ [Rfile_read n], challenge_store := st'\<rparr>
        = s\<lparr>challenge_store := st', trace := trace s @ [Rfile_read n]\<rparr>"
      by simp
    have "do_POST_try lib now req s =
        send_error 403 (Some ''Invalid or expired challenge'') req
          (s\<lparr>trace := trace s @ [Rfile_read n], challenge_store := st'\<rparr>)"
      using assms a v None by (simp add: do_POST_try_def Let_def consume_nonce_def)
    then have t: "do_POST_try lib now req s =
        send_error 403 (Some ''Invalid or expired challenge'') req
          (s\<lparr>challenge_store := st', trace := trace s @ [Rfile_read n]\<rparr>)"
      by (simp only: eq)
    show ?thesis
      using assms(1) t v None
      by (cases "wfile_error req") (simp_all add: do_POST_def send_error_def wfile_write_def)
  next
    case (Some d)
    have t: "do_POST_try lib now req s =
        (Some e, s\<lparr>challenge_store := st', trace := trace s @ [Rfile_read n]\<rparr>)"
      using assms a v Some
      by (simp add: do_POST_try_def Let_def consume_nonce_def py_b64decode_def)
    show ?thesis
      using assms(1) a t v Some by (simp add: do_POST_def)
  qed
next
  fix code message s'
  show "challenge_store (snd (send_error code message req s')) = challenge_store s'"
    by (simp add: send_error_state)
  show "auth_result (snd (send_error code message req s')) = auth_result s'"
    by (simp add: send_error_state)
  assume "wfile_error req = None"
  then show "send_error code message req s'
      = (None, s'\<lparr>trace := trace s' @ [Send_error code message]\<rparr>)"
    by (rule send_error_written)
qed

theorem malformed_input_400_witness:
  "path (post ''8'' ''not json'') = ''/auth/response'' \<and>
   content_length_of example_library (post ''8'' ''not json'') = Inr 8 \<and> (8::int) \<le> 4096 \<and>
   rfile_read (post ''8'' ''not json'') 8 = Inr ''not json'' \<and>
   json_loads example_library ''not json'' = Inl JSONDecodeError \<and>
   caught JSONDecodeError \<and>
   wfile_error (post ''8'' ''not json'') = None \<and>
   do_POST example_library 5 (post ''8'' ''not json'') example_server
     = (None, example_server\<lparr>trace := [Rfile_read 8, Send_error 400 (Some ''Invalid request'')]\<rparr>) \<and>
   content_length_of example_library (post ''15'' body_no_signature) = Inr 15 \<and>
   rfile_read (post ''15'' body_no_signature) 15 = Inr body_no_signature \<and>
   json_loads example_library body_no_signature = Inr (JObj [(''nonce'', JStr ''n1'')]) \<and>
   map_of [(''nonce'', JStr ''n1'')] ''signature'' = None \<and>
   do_POST example_library 5 (post ''15'' body_no_signature) example_server
     = (None, example_server\<lparr>trace :=
          [Rfile_read 15, Send_error 400 (Some ''Missing nonce or signature'')]\<rparr>) \<and>
   content_length_of example_library (post ''35'' body_bad_b64) = Inr 35 \<and>
   rfile_read (post ''35'' body_bad_b64) 35 = Inr body_bad_b64 \<and>
   json_loads example_library body_bad_b64
     = Inr (JObj [(''nonce'', JStr ''n1''), (''signature'', JStr ''abc'')]) \<and>
   b64decode example_library ''abc'' = Inl BinasciiError \<and> caught BinasciiError \<and>
   fst (validate_and_consume (challenge_store example_server) 5 ''n1'') = Some ''{}'' \<and>
   do_POST example_library 5 (post ''35'' body_bad_b64) example_server
     = (None, example_server
          \<lparr>challenge_store := snd (validate_and_consume (challenge_store example_server) 5 ''n1''),
           trace := [Rfile_read 35, Send_error 400 (Some ''Invalid request'')]\<rparr>)"
proof -
  have t: "trace example_server = []"
    by (simp add: example_server_def register_def server_init_def)
  have v: "fst (validate_and_consume (challenge_store example_server) 5 ''n1'') = Some ''{}''"
    by (simp add: validate_and_consume_def example_server_def register_def server_init_def
        add_def ChallengeStore_init_def)
  have p: "\<And>h b. path (post h b) = ''/auth/response''"
    by (simp add: post_def path_def)
  have w: "\<And>h b. wfile_error (post h b) = None"
    by (simp add: post_def)
  have c1: "content_length_of example_library (post ''8'' ''not json'') = Inr 8"
    by (simp add: post_def content_length_of_def example_library_def)
  have r1: "rfile_read (post ''8'' ''not json'') 8 = Inr ''not json''"
    by (simp add: post_def rfile_read_def)
  have j1: "json_loads example_library ''not json'' = Inl JSONDecodeError"
    by (simp add: example_library_def body_ok_def body_bad_b64_def
        body_no_signature_def body_empty_nonce_def body_padded_def)
  have c2: "content_length_of example_library (post ''15'' body_no_signature) = Inr 15"
    by (simp add: post_def content_length_of_def example_library_def)
  have r2: "rfile_read (post ''15'' body_no_signature) 15 = Inr body_no_signature"
    by (simp add: post_def rfile_read_def body_no_signature_def)
  have j2: "json_loads example_library body_no_signature = Inr (JObj [(''nonce'', JStr ''n1'')])"
    by (simp add: example_library_def body_ok_def body_bad_b64_def body_no_signature_def)
  have c3: "content_length_of example_library (post ''35'' body_bad_b64) = Inr 35"
    by (simp add: post_def content_length_of_def example_library_def)
  have r3: "rfile_read (post ''35'' body_bad_b64) 35 = Inr body_bad_b64"
    by (simp add: post_def rfile_read_def body_bad_b64_def)
  have j3: "json_loads example_library body_bad_b64
     = Inr (JObj [(''nonce'', JStr ''n1''), (''signature'', JStr ''abc'')])"
    by (simp add: example_library_def body_ok_def body_bad_b64_def)
  have b: "b64decode example_library ''abc'' = Inl BinasciiError"
    by (simp add: example_library_def)
  have k: "caught JSONDecodeError" "caught BinasciiError"
    by (simp_all add: caught_def)
  have g: "dict_get [(''nonce'', JStr ''n1''), (''signature'', JStr ''abc'')] ''nonce'' = JStr ''n1''"
    "dict_get [(''nonce'', JStr ''n1''), (''signature'', JStr ''abc'')] ''signature'' = JStr ''abc''"
    by (simp_all add: dict_get_def)
  show ?thesis
    using malformed_input_400 [OF p c1 _ r1, of 5 example_server]
      malformed_input_400 [OF p c2 _ r2, of 5 example_server]
      malformed_input_400 [OF p c3 _ r3, of 5 example_server]
      t v p w c1 r1 j1 c2 r2 j2 c3 r3 j3 b k g
    by (simp add: send_error_def wfile_write_def)
qed

subsection \<open>The loop and its deadline\<close>











end
